theory Spec2Isabelle
  imports Complex_Main
begin

section \<open>The chat-completion edge function\<close>

text \<open>
  A shallow embedding of \<^verbatim>\<open>supabase/edge-functions/chat-completion.ts\<close>: the request
  handler passed to \<^verbatim>\<open>Deno.serve\<close>, \<^verbatim>\<open>formatMessagesForProvider\<close> and the three
  functions \<^verbatim>\<open>callOpenAI\<close>, \<^verbatim>\<open>callClaude\<close> and \<^verbatim>\<open>callMistral\<close>.
  The code is untyped JavaScript over parsed JSON, so the values are modelled as the
  language has them, every \<^verbatim>\<open>throw\<close> is a branch of a sum type, and the two effects the
  handler has on the outside (reading the environment and calling \<^verbatim>\<open>fetch\<close>) are
  recorded in a trace that is returned with the response. The line the \<^verbatim>\<open>catch\<close>
  branch writes with \<^verbatim>\<open>console.error\<close> is left out.
\<close>

subsection \<open>JavaScript values\<close>

text \<open>
  What \<^verbatim>\<open>JSON.parse\<close> yields, and \<^verbatim>\<open>undefined\<close>, which reading an absent
  property yields. An object is the list of its own properties in insertion order; the
  parser leaves at most one entry for a key.
\<close>

datatype jsval =
    JUndefined
  | JNull
  | JBool bool
  | JNum rat
  | JStr string
  | JArr "jsval list"
  | JObj "(string \<times> jsval) list"

text \<open>
  What the code can throw. \<open>Error m\<close> is an error object whose \<^verbatim>\<open>message\<close> is \<open>m\<close>: the
  ones the code makes with \<^verbatim>\<open>new Error(m)\<close> and the ones \<^verbatim>\<open>fetch\<close>,
  \<^verbatim>\<open>req.json()\<close> and \<^verbatim>\<open>response.json()\<close> reject with. The other two are the
  TypeErrors of the runtime: reading property \<open>k\<close> of \<^verbatim>\<open>null\<close> or \<^verbatim>\<open>undefined\<close>, and
  destructuring \<^verbatim>\<open>null\<close> or \<^verbatim>\<open>undefined\<close>.
\<close>

datatype js_error =
    Error string
  | ReadOfNullish jsval string
  | DestructureOfNullish jsval

text \<open>Truthiness (\<^verbatim>\<open>!x\<close>, \<^verbatim>\<open>x || y\<close>, \<^verbatim>\<open>c ? a : b\<close>).\<close>

fun truthy :: "jsval \<Rightarrow> bool" where
  "truthy JUndefined = False"
| "truthy JNull = False"
| "truthy (JBool b) = b"
| "truthy (JNum n) = (n \<noteq> 0)"
| "truthy (JStr s) = (s \<noteq> [])"
| "truthy (JArr xs) = True"
| "truthy (JObj kvs) = True"

fun nullish :: "jsval \<Rightarrow> bool" where
  "nullish JUndefined = True"
| "nullish JNull = True"
| "nullish v = False"

text \<open>\<^verbatim>\<open>a || b\<close>\<close>

definition or_else :: "jsval \<Rightarrow> jsval \<Rightarrow> jsval" where
  "or_else a b = (if truthy a then a else b)"

text \<open>
  The value of property \<open>k\<close> of a value that is neither \<^verbatim>\<open>null\<close> nor \<^verbatim>\<open>undefined\<close>.
  \<open>k\<close> ranges over the names the source reads (\<^verbatim>\<open>messages\<close>, \<^verbatim>\<open>model\<close>,
  \<^verbatim>\<open>provider\<close>, \<^verbatim>\<open>stream\<close>, \<^verbatim>\<open>userApiKey\<close>, \<^verbatim>\<open>role\<close>, \<^verbatim>\<open>content\<close>,
  \<^verbatim>\<open>choices\<close>, \<^verbatim>\<open>message\<close>, \<^verbatim>\<open>text\<close>, \<^verbatim>\<open>usage\<close>, \<^verbatim>\<open>error\<close>); no prototype
  defines one of them, so only an object's own properties can answer.
\<close>

fun lookup :: "jsval \<Rightarrow> string \<Rightarrow> jsval" where
  "lookup (JObj kvs) k = (case map_of kvs k of None \<Rightarrow> JUndefined | Some v \<Rightarrow> v)"
| "lookup v k = JUndefined"

text \<open>\<^verbatim>\<open>v.k\<close>: a TypeError on \<^verbatim>\<open>null\<close> and \<^verbatim>\<open>undefined\<close>.\<close>

definition get_prop :: "jsval \<Rightarrow> string \<Rightarrow> js_error + jsval" where
  "get_prop v k = (if nullish v then Inl (ReadOfNullish v k) else Inr (lookup v k))"

text \<open>\<^verbatim>\<open>v?.k\<close>: \<^verbatim>\<open>undefined\<close> on \<^verbatim>\<open>null\<close> and \<^verbatim>\<open>undefined\<close>.\<close>

definition opt_prop :: "jsval \<Rightarrow> string \<Rightarrow> jsval" where
  "opt_prop v k = (if nullish v then JUndefined else lookup v k)"

text \<open>
  \<^verbatim>\<open>v[0]\<close>: the first element of an array, the first code unit of a string, the own
  property \<^verbatim>\<open>"0"\<close> of an object, \<^verbatim>\<open>undefined\<close> when there is none, and a TypeError
  on \<^verbatim>\<open>null\<close> and \<^verbatim>\<open>undefined\<close>.
\<close>

fun elem0 :: "jsval \<Rightarrow> js_error + jsval" where
  "elem0 JUndefined = Inl (ReadOfNullish JUndefined ''0'')"
| "elem0 JNull = Inl (ReadOfNullish JNull ''0'')"
| "elem0 (JArr xs) = Inr (case xs of [] \<Rightarrow> JUndefined | x # _ \<Rightarrow> x)"
| "elem0 (JStr s) = Inr (case s of [] \<Rightarrow> JUndefined | c # _ \<Rightarrow> JStr [c])"
| "elem0 (JObj kvs) = Inr (lookup (JObj kvs) ''0'')"
| "elem0 v = Inr JUndefined"

text \<open>\<^verbatim>\<open>Array.isArray\<close> and the elements of an array.\<close>

fun isArray :: "jsval \<Rightarrow> bool" where
  "isArray (JArr xs) = True"
| "isArray v = False"

fun elements :: "jsval \<Rightarrow> jsval list" where
  "elements (JArr xs) = xs"
| "elements v = []"

text \<open>
  \<^verbatim>\<open>Array.prototype.map\<close> with a callback that may throw: the elements are visited in
  order and the first throw ends the call.
\<close>

fun array_map :: "('a \<Rightarrow> js_error + 'b) \<Rightarrow> 'a list \<Rightarrow> js_error + 'b list" where
  "array_map f [] = Inr []"
| "array_map f (x # xs) =
     (case f x of
        Inl e \<Rightarrow> Inl e
      | Inr y \<Rightarrow> (case array_map f xs of Inl e \<Rightarrow> Inl e | Inr ys \<Rightarrow> Inr (y # ys)))"

text \<open>
  Sequencing: a step that threw ends the computation with its error, the value of a step
  that returned goes to the next one.
\<close>

definition and_then :: "js_error + 'a \<Rightarrow> ('a \<Rightarrow> js_error + 'b) \<Rightarrow> js_error + 'b" where
  "and_then r f = (case r of Inl e \<Rightarrow> Inl e | Inr x \<Rightarrow> f x)"

subsection \<open>The world outside the function\<close>

text \<open>
  The argument of \<^verbatim>\<open>fetch\<close>. A header value is the JavaScript value the code puts
  there; \<open>rq_body\<close> is the value the code hands to \<^verbatim>\<open>JSON.stringify\<close>.
\<close>

record http_request =
  rq_url :: string
  rq_method :: string
  rq_headers :: "(string \<times> jsval) list"
  rq_body :: jsval

text \<open>
  What \<^verbatim>\<open>fetch\<close> resolves with: the status (\<^verbatim>\<open>response.ok\<close> is a status from 200 to
  299) and what \<^verbatim>\<open>response.json()\<close> gives, the parsed body or a rejection.
\<close>

record upstream_response =
  up_status :: nat
  up_json :: "js_error + jsval"

definition response_ok :: "upstream_response \<Rightarrow> bool" where
  "response_ok r = (200 \<le> up_status r \<and> up_status r \<le> 299)"

text \<open>
  Everything the code takes from its surroundings:
  \<^item> \<open>env_get\<close> is \<^verbatim>\<open>Deno.env.get\<close>;
  \<^item> \<open>fetch\<close> is \<^verbatim>\<open>fetch\<close>, which rejects (\<open>Inl\<close>) or resolves with a response;
  \<^item> \<open>to_text\<close> is the string conversion of a template literal on a value that is not a
    string (the formatting of a number, \<^verbatim>\<open>Array.prototype.join\<close>,
    \<^verbatim>\<open>[object Object]\<close>, or a TypeError for an object with an own \<^verbatim>\<open>toString\<close>);
  \<^item> \<open>runtime_text\<close> is the \<^verbatim>\<open>message\<close> the runtime gives its own TypeErrors.
\<close>

record world =
  env_get :: "string \<Rightarrow> string option"
  fetch :: "http_request \<Rightarrow> js_error + upstream_response"
  to_text :: "jsval \<Rightarrow> js_error + string"
  runtime_text :: "js_error \<Rightarrow> string"

text \<open>The effects the handler has, in the order it has them.\<close>

datatype effect = EnvGet string | Fetch http_request

text \<open>\<^verbatim>\<open>`${v}`\<close>\<close>

fun to_string :: "world \<Rightarrow> jsval \<Rightarrow> js_error + string" where
  "to_string w (JStr s) = Inr s"
| "to_string w v = to_text w v"

text \<open>\<^verbatim>\<open>error.message\<close>\<close>

fun message_of :: "world \<Rightarrow> js_error \<Rightarrow> string" where
  "message_of w (Error m) = m"
| "message_of w e = runtime_text w e"

text \<open>\<^verbatim>\<open>Deno.env.get(name)\<close>: the value, or \<^verbatim>\<open>undefined\<close>.\<close>

definition env_value :: "world \<Rightarrow> string \<Rightarrow> jsval" where
  "env_value w name = (case env_get w name of None \<Rightarrow> JUndefined | Some s \<Rightarrow> JStr s)"

subsection \<open>formatMessagesForProvider\<close>

definition formatMessagesForProvider :: "jsval list \<Rightarrow> jsval \<Rightarrow> js_error + jsval list" where
  "formatMessagesForProvider messages provider =
     (if provider = JStr ''openai'' then
        array_map (\<lambda>msg.
          and_then (get_prop msg ''role'') (\<lambda>role.
          and_then (get_prop msg ''content'') (\<lambda>content.
            Inr (JObj [(''role'', role), (''content'', content)])))) messages
      else if provider = JStr ''claude'' then
        array_map (\<lambda>msg.
          and_then (get_prop msg ''role'') (\<lambda>role.
          and_then (get_prop msg ''content'') (\<lambda>content.
            Inr (JObj [(''role'', if role = JStr ''user'' then JStr ''human'' else JStr ''assistant''),
                       (''content'', content)])))) messages
      else if provider = JStr ''mistral'' then
        array_map (\<lambda>msg.
          and_then (get_prop msg ''role'') (\<lambda>role.
          and_then (get_prop msg ''content'') (\<lambda>content.
            Inr (JObj [(''role'', role), (''content'', content)])))) messages
      else Inr messages)"

subsection \<open>The three upstream calls\<close>

text \<open>
  \<^verbatim>\<open>errorData.error?.message || 'Unknown error'\<close> inside a template literal, the text
  all three calls put behind their prefix when the upstream answers outside 200 to 299.
\<close>

definition upstream_error_text :: "world \<Rightarrow> jsval \<Rightarrow> js_error + string" where
  "upstream_error_text w errorData =
     and_then (get_prop errorData ''error'') (\<lambda>err.
       to_string w (or_else (opt_prop err ''message'') (JStr ''Unknown error'')))"

text \<open>
  The object \<^verbatim>\<open>callOpenAI\<close> and \<^verbatim>\<open>callMistral\<close> return:
  \<^verbatim>\<open>{content: data.choices[0]?.message?.content || '', usage: data.usage, model: data.model}\<close>
\<close>

definition choices_result :: "jsval \<Rightarrow> js_error + jsval" where
  "choices_result data =
     and_then (get_prop data ''choices'') (\<lambda>choices.
     and_then (elem0 choices) (\<lambda>first.
     and_then (get_prop data ''usage'') (\<lambda>usage.
     and_then (get_prop data ''model'') (\<lambda>model.
       Inr (JObj [(''content'', or_else (opt_prop (opt_prop first ''message'') ''content'') (JStr '''')),
                  (''usage'', usage),
                  (''model'', model)])))))"

text \<open>
  The object \<^verbatim>\<open>callClaude\<close> returns:
  \<^verbatim>\<open>{content: data.content[0]?.text || '', usage: data.usage, model: data.model}\<close>
\<close>

definition content_result :: "jsval \<Rightarrow> js_error + jsval" where
  "content_result data =
     and_then (get_prop data ''content'') (\<lambda>blocks.
     and_then (elem0 blocks) (\<lambda>first.
     and_then (get_prop data ''usage'') (\<lambda>usage.
     and_then (get_prop data ''model'') (\<lambda>model.
       Inr (JObj [(''content'', or_else (opt_prop first ''text'') (JStr '''')),
                  (''usage'', usage),
                  (''model'', model)])))))"

text \<open>
  What each call does once \<^verbatim>\<open>fetch\<close> has resolved: outside 200 to 299 it reads the
  body and throws an error with the provider's prefix; inside, it reads the body and
  builds the result with \<open>extract\<close>.
\<close>

definition after_fetch ::
  "world \<Rightarrow> string \<Rightarrow> (jsval \<Rightarrow> js_error + jsval) \<Rightarrow> upstream_response \<Rightarrow> js_error + jsval" where
  "after_fetch w prefix extract response =
     (if \<not> response_ok response then
        and_then (up_json response) (\<lambda>errorData.
        and_then (upstream_error_text w errorData) (\<lambda>m.
          Inl (Error (prefix @ m))))
      else
        and_then (up_json response) extract)"

definition openai_request :: "jsval list \<Rightarrow> jsval \<Rightarrow> string \<Rightarrow> jsval \<Rightarrow> http_request" where
  "openai_request messages model key stream =
     \<lparr>rq_url = ''https://api.openai.com/v1/chat/completions'',
      rq_method = ''POST'',
      rq_headers = [(''Authorization'', JStr (''Bearer '' @ key)),
                    (''Content-Type'', JStr ''application/json'')],
      rq_body = JObj [(''model'', model), (''messages'', JArr messages), (''stream'', stream)]\<rparr>"

definition callOpenAI ::
  "world \<Rightarrow> jsval list \<Rightarrow> jsval \<Rightarrow> jsval \<Rightarrow> jsval \<Rightarrow> (js_error + jsval) \<times> effect list" where
  "callOpenAI w messages model apiKey stream =
     (case to_string w apiKey of
        Inl e \<Rightarrow> (Inl e, [])
      | Inr key \<Rightarrow>
          (let request = openai_request messages model key stream in
           (and_then (fetch w request) (after_fetch w ''OpenAI API error: '' choices_result),
            [Fetch request])))"

definition claude_request :: "jsval list \<Rightarrow> jsval \<Rightarrow> jsval \<Rightarrow> jsval \<Rightarrow> http_request" where
  "claude_request messages model apiKey stream =
     \<lparr>rq_url = ''https://api.anthropic.com/v1/messages'',
      rq_method = ''POST'',
      rq_headers = [(''x-api-key'', apiKey),
                    (''Content-Type'', JStr ''application/json''),
                    (''anthropic-version'', JStr ''2023-06-01'')],
      rq_body = JObj [(''model'', model), (''max_tokens'', JNum 4000),
                      (''messages'', JArr messages), (''stream'', stream)]\<rparr>"

definition callClaude ::
  "world \<Rightarrow> jsval list \<Rightarrow> jsval \<Rightarrow> jsval \<Rightarrow> jsval \<Rightarrow> (js_error + jsval) \<times> effect list" where
  "callClaude w messages model apiKey stream =
     (let request = claude_request messages model apiKey stream in
      (and_then (fetch w request) (after_fetch w ''Claude API error: '' content_result),
       [Fetch request]))"

definition mistral_request :: "jsval list \<Rightarrow> jsval \<Rightarrow> string \<Rightarrow> jsval \<Rightarrow> http_request" where
  "mistral_request messages model key stream =
     \<lparr>rq_url = ''https://api.mistral.ai/v1/chat/completions'',
      rq_method = ''POST'',
      rq_headers = [(''Authorization'', JStr (''Bearer '' @ key)),
                    (''Content-Type'', JStr ''application/json'')],
      rq_body = JObj [(''model'', model), (''messages'', JArr messages), (''stream'', stream)]\<rparr>"

definition callMistral ::
  "world \<Rightarrow> jsval list \<Rightarrow> jsval \<Rightarrow> jsval \<Rightarrow> jsval \<Rightarrow> (js_error + jsval) \<times> effect list" where
  "callMistral w messages model apiKey stream =
     (case to_string w apiKey of
        Inl e \<Rightarrow> (Inl e, [])
      | Inr key \<Rightarrow>
          (let request = mistral_request messages model key stream in
           (and_then (fetch w request) (after_fetch w ''Mistral API error: '' choices_result),
            [Fetch request])))"

subsection \<open>The request handler\<close>

text \<open>
  The request as the handler sees it: its method and what \<^verbatim>\<open>req.json()\<close> gives, the
  parsed body or a rejection.
\<close>

record request =
  req_method :: string
  req_json :: "js_error + jsval"

text \<open>
  \<^verbatim>\<open>req.provider\<close>: the handler reads the property from the \<^verbatim>\<open>Request\<close> object, which has
  no property of that name (the provider the caller names is in the body).
\<close>

definition req_provider :: "request \<Rightarrow> jsval" where
  "req_provider req = JUndefined"

text \<open>The response handed back: \<open>rs_body\<close> is the value given to \<^verbatim>\<open>JSON.stringify\<close>, or no body.\<close>

record response =
  rs_status :: nat
  rs_headers :: "(string \<times> string) list"
  rs_body :: "jsval option"

definition corsHeaders :: "(string \<times> string) list" where
  "corsHeaders =
     [(''Access-Control-Allow-Origin'', ''*''),
      (''Access-Control-Allow-Headers'', ''authorization, x-client-info, apikey, content-type''),
      (''Access-Control-Allow-Methods'', ''POST, GET, OPTIONS, PUT, DELETE, PATCH''),
      (''Access-Control-Max-Age'', ''86400''),
      (''Access-Control-Allow-Credentials'', ''false'')]"

text \<open>
  The lines that choose the key: the caller's when it is truthy, else the environment's
  for the three providers the \<^verbatim>\<open>switch\<close> knows, else the throw of its default branch.
\<close>

definition resolveApiKey :: "world \<Rightarrow> jsval \<Rightarrow> jsval \<Rightarrow> (js_error + jsval) \<times> effect list" where
  "resolveApiKey w provider userApiKey =
     (if truthy userApiKey then (Inr userApiKey, [])
      else if provider = JStr ''openai'' then
        (Inr (env_value w ''OPENAI_API_KEY''), [EnvGet ''OPENAI_API_KEY''])
      else if provider = JStr ''claude'' then
        (Inr (env_value w ''ANTHROPIC_API_KEY''), [EnvGet ''ANTHROPIC_API_KEY''])
      else if provider = JStr ''mistral'' then
        (Inr (env_value w ''MISTRAL_API_KEY''), [EnvGet ''MISTRAL_API_KEY''])
      else
        (case to_string w provider of
           Inl e \<Rightarrow> (Inl e, [])
         | Inr p \<Rightarrow> (Inl (Error (''Unsupported provider: '' @ p)), [])))"

text \<open>The second \<^verbatim>\<open>switch\<close>: the call for the provider, or the throw of its default branch.\<close>

definition dispatch ::
  "world \<Rightarrow> jsval \<Rightarrow> jsval list \<Rightarrow> jsval \<Rightarrow> jsval \<Rightarrow> jsval \<Rightarrow> (js_error + jsval) \<times> effect list" where
  "dispatch w provider formattedMessages model apiKey stream =
     (if provider = JStr ''openai'' then callOpenAI w formattedMessages model apiKey stream
      else if provider = JStr ''claude'' then callClaude w formattedMessages model apiKey stream
      else if provider = JStr ''mistral'' then callMistral w formattedMessages model apiKey stream
      else
        (case to_string w provider of
           Inl e \<Rightarrow> (Inl e, [])
         | Inr p \<Rightarrow> (Inl (Error (''Unsupported provider: '' @ p)), [])))"

text \<open>
  The body of the \<^verbatim>\<open>try\<close>: the value to send back or the error thrown, and the effects
  up to that point.
\<close>

definition try_block :: "world \<Rightarrow> request \<Rightarrow> (js_error + jsval) \<times> effect list" where
  "try_block w req =
     (case req_json req of
        Inl e \<Rightarrow> (Inl e, [])
      | Inr parsed \<Rightarrow>
          if nullish parsed then (Inl (DestructureOfNullish parsed), [])
          else
            (let messages = lookup parsed ''messages'';
                 model = lookup parsed ''model'';
                 provider = lookup parsed ''provider'';
                 stream = (if lookup parsed ''stream'' = JUndefined then JBool False
                           else lookup parsed ''stream'');
                 userApiKey = lookup parsed ''userApiKey''
             in
               if \<not> truthy messages \<or> \<not> isArray messages \<or> length (elements messages) = 0 then
                 (Inl (Error ''Messages array is required''), [])
               else if \<not> truthy model \<or> \<not> truthy provider then
                 (Inl (Error ''Model and provider are required''), [])
               else
                 (case resolveApiKey w provider userApiKey of
                    (Inl e, t) \<Rightarrow> (Inl e, t)
                  | (Inr apiKey, t) \<Rightarrow>
                      if \<not> truthy apiKey then
                        (case to_string w provider of
                           Inl e \<Rightarrow> (Inl e, t)
                         | Inr p \<Rightarrow> (Inl (Error (''API key not found for provider: '' @ p)), t))
                      else
                        (case formatMessagesForProvider (elements messages) provider of
                           Inl e \<Rightarrow> (Inl e, t)
                         | Inr formattedMessages \<Rightarrow>
                             (case dispatch w provider formattedMessages model apiKey stream of
                                (r, t') \<Rightarrow> (r, t @ t'))))))"

text \<open>The response of the \<^verbatim>\<open>catch\<close> branch.\<close>

definition errorResponse :: "world \<Rightarrow> request \<Rightarrow> js_error \<Rightarrow> response" where
  "errorResponse w req error =
     \<lparr>rs_status = 500,
      rs_headers = corsHeaders @ [(''Content-Type'', ''application/json'')],
      rs_body = Some (JObj [(''error'',
        JObj [(''code'', JStr ''CHAT_COMPLETION_FAILED''),
              (''message'', JStr (message_of w error)),
              (''provider'', or_else (req_provider req) (JStr ''unknown''))])])\<rparr>"

text \<open>The response of the last line of the \<^verbatim>\<open>try\<close>; the status is the default, 200.\<close>

definition successResponse :: "jsval \<Rightarrow> response" where
  "successResponse result =
     \<lparr>rs_status = 200,
      rs_headers = corsHeaders @ [(''Content-Type'', ''application/json'')],
      rs_body = Some result\<rparr>"

text \<open>The handler: the response and the effects it had.\<close>

definition handler :: "world \<Rightarrow> request \<Rightarrow> response \<times> effect list" where
  "handler w req =
     (if req_method req = ''OPTIONS'' then
        (\<lparr>rs_status = 200, rs_headers = corsHeaders, rs_body = None\<rparr>, [])
      else
        (case try_block w req of
           (Inr result, t) \<Rightarrow> (successResponse result, t)
         | (Inl error, t) \<Rightarrow> (errorResponse w req error, t)))"

subsection \<open>What the properties are stated with\<close>

text \<open>The environment variable the first \<^verbatim>\<open>switch\<close> reads for a provider, if it knows it.\<close>

definition secret_name :: "jsval \<Rightarrow> string option" where
  "secret_name provider =
     (if provider = JStr ''openai'' then Some ''OPENAI_API_KEY''
      else if provider = JStr ''claude'' then Some ''ANTHROPIC_API_KEY''
      else if provider = JStr ''mistral'' then Some ''MISTRAL_API_KEY''
      else None)"

text \<open>
  A request to the upstream carries a key the way the provider wants it: as
  \<^verbatim>\<open>x-api-key\<close> beside the \<^verbatim>\<open>anthropic-version\<close> header for claude, as
  \<^verbatim>\<open>Authorization: Bearer\<close> for the other two.
\<close>

definition carries_credential :: "world \<Rightarrow> jsval \<Rightarrow> jsval \<Rightarrow> http_request \<Rightarrow> bool" where
  "carries_credential w provider apiKey q =
     (if provider = JStr ''claude'' then
        map_of (rq_headers q) ''x-api-key'' = Some apiKey \<and>
        map_of (rq_headers q) ''anthropic-version'' = Some (JStr ''2023-06-01'')
      else
        (case to_string w apiKey of
           Inl e \<Rightarrow> False
         | Inr key \<Rightarrow> map_of (rq_headers q) ''Authorization'' = Some (JStr (''Bearer '' @ key))))"

fun is_fetch :: "effect \<Rightarrow> bool" where
  "is_fetch (Fetch q) = True"
| "is_fetch (EnvGet name) = False"

text \<open>The roles of a list of messages.\<close>

definition roles :: "jsval list \<Rightarrow> jsval list" where
  "roles messages = map (\<lambda>msg. lookup msg ''role'') messages"

text \<open>
  The claude role mapping as the specification words it: \<^verbatim>\<open>user\<close> is renamed to
  \<^verbatim>\<open>human\<close>, \<^verbatim>\<open>assistant\<close> passes through unchanged, and a \<^verbatim>\<open>system\<close> message is
  passed through inline.
\<close>

definition documented_claude_role :: "jsval \<Rightarrow> jsval" where
  "documented_claude_role role = (if role = JStr ''user'' then JStr ''human'' else role)"

text \<open>
  The reversal of the documented renaming, as the specification words it: \<^verbatim>\<open>human\<close> back
  to \<^verbatim>\<open>user\<close> for claude, the identity for the other providers.
\<close>

definition reverse_role_renaming :: "jsval \<Rightarrow> jsval \<Rightarrow> jsval" where
  "reverse_role_renaming provider role =
     (if provider = JStr ''claude'' \<and> role = JStr ''human'' then JStr ''user'' else role)"

text \<open>Transform, then reverse the renaming on the roles; nothing when the transformation throws.\<close>

definition round_trip_roles :: "jsval \<Rightarrow> jsval list \<Rightarrow> jsval list option" where
  "round_trip_roles provider messages =
     (case formatMessagesForProvider messages provider of
        Inl e \<Rightarrow> None
      | Inr out \<Rightarrow> Some (map (reverse_role_renaming provider) (roles out)))"

subsection \<open>Concrete inputs\<close>

definition chat_message :: "string \<Rightarrow> string \<Rightarrow> jsval" where
  "chat_message role content = JObj [(''role'', JStr role), (''content'', JStr content)]"

text \<open>
  A world with the given environment whose \<^verbatim>\<open>fetch\<close> always ends the same way. Its
  two texts are placeholders: the inputs below convert strings only.
\<close>

definition test_world :: "(string \<Rightarrow> string option) \<Rightarrow> (js_error + upstream_response) \<Rightarrow> world" where
  "test_world env answer =
     \<lparr>env_get = env, fetch = (\<lambda>request. answer), to_text = (\<lambda>v. Inr ''''),
      runtime_text = (\<lambda>e. ''TypeError'')\<rparr>"

definition post :: "jsval \<Rightarrow> request" where
  "post body = \<lparr>req_method = ''POST'', req_json = Inr body\<rparr>"

text \<open>A request body with one user message, for a provider, with or without a key of the caller.\<close>

definition hello_body :: "string \<Rightarrow> jsval \<Rightarrow> jsval" where
  "hello_body provider userApiKey =
     JObj [(''messages'', JArr [chat_message ''user'' ''hello'']),
           (''model'', JStr ''some-model''),
           (''provider'', JStr provider),
           (''userApiKey'', userApiKey)]"

text \<open>An environment that holds the secret of one provider only.\<close>

definition env_openai_only :: "string \<Rightarrow> string option" where
  "env_openai_only name = (if name = ''OPENAI_API_KEY'' then Some ''sk-env'' else None)"

text \<open>Two ways for \<^verbatim>\<open>fetch\<close> to end: a network failure, and a response with a body.\<close>

definition offline :: "js_error + upstream_response" where
  "offline = Inl (Error ''offline'')"

definition answer :: "nat \<Rightarrow> jsval \<Rightarrow> js_error + upstream_response" where
  "answer status body = Inr \<lparr>up_status = status, up_json = Inr body\<rparr>"

section \<open>Properties\<close>

subsection \<open>Shared lemmas\<close>

lemma and_then_Inl [simp]: "and_then (Inl e) f = Inl e"
  by (simp add: and_then_def)

lemma and_then_Inr [simp]: "and_then (Inr x) f = f x"
  by (simp add: and_then_def)

lemma get_prop_defined [simp]: "\<not> nullish v \<Longrightarrow> get_prop v k = Inr (lookup v k)"
  by (simp add: get_prop_def)

lemma array_map_Inr:
  "(\<And>x. x \<in> set xs \<Longrightarrow> f x = Inr (g x)) \<Longrightarrow> array_map f xs = Inr (map g xs)"
  by (induction xs) simp_all

lemma format_claude:
  assumes "\<forall>m\<in>set messages. \<not> nullish m"
  shows "formatMessagesForProvider messages (JStr ''claude'') =
    Inr (map (\<lambda>msg. JObj [(''role'', if lookup msg ''role'' = JStr ''user''
                                       then JStr ''human'' else JStr ''assistant''),
                            (''content'', lookup msg ''content'')]) messages)"
  unfolding formatMessagesForProvider_def using assms
  by (simp add: array_map_Inr)

lemma format_same:
  assumes "\<forall>m\<in>set messages. \<not> nullish m" and "p = ''openai'' \<or> p = ''mistral''"
  shows "formatMessagesForProvider messages (JStr p) =
    Inr (map (\<lambda>msg. JObj [(''role'', lookup msg ''role''), (''content'', lookup msg ''content'')])
           messages)"
  unfolding formatMessagesForProvider_def using assms
  by (auto simp add: array_map_Inr)

lemma isArray_truthy: "isArray v \<Longrightarrow> truthy v"
  by (cases v) simp_all

lemma handler_catch:
  "req_method req \<noteq> ''OPTIONS'' \<Longrightarrow> try_block w req = (Inl e, t) \<Longrightarrow>
   handler w req = (errorResponse w req e, t)"
  by (simp add: handler_def)

lemma handler_return:
  "req_method req \<noteq> ''OPTIONS'' \<Longrightarrow> try_block w req = (Inr v, t) \<Longrightarrow>
   handler w req = (successResponse v, t)"
  by (simp add: handler_def)

lemma try_block_messages:
  assumes "req_json req = Inr parsed" "\<not> nullish parsed"
    and "\<not> truthy (lookup parsed ''messages'') \<or> \<not> isArray (lookup parsed ''messages'')
         \<or> elements (lookup parsed ''messages'') = []"
  shows "try_block w req = (Inl (Error ''Messages array is required''), [])"
  using assms by (auto simp: try_block_def Let_def)

lemma try_block_model_provider:
  assumes "req_json req = Inr parsed" "\<not> nullish parsed"
    and "isArray (lookup parsed ''messages'')" "elements (lookup parsed ''messages'') \<noteq> []"
    and "\<not> truthy (lookup parsed ''model'') \<or> \<not> truthy (lookup parsed ''provider'')"
  shows "try_block w req = (Inl (Error ''Model and provider are required''), [])"
  using assms isArray_truthy [OF assms(3)] by (auto simp: try_block_def Let_def)

lemma try_block_valid:
  assumes "req_json req = Inr parsed" "\<not> nullish parsed"
    and "isArray (lookup parsed ''messages'')" "elements (lookup parsed ''messages'') \<noteq> []"
    and "truthy (lookup parsed ''model'')" "truthy (lookup parsed ''provider'')"
  shows "try_block w req =
    (case resolveApiKey w (lookup parsed ''provider'') (lookup parsed ''userApiKey'') of
       (Inl e, t) \<Rightarrow> (Inl e, t)
     | (Inr apiKey, t) \<Rightarrow>
         if \<not> truthy apiKey then
           (case to_string w (lookup parsed ''provider'') of
              Inl e \<Rightarrow> (Inl e, t)
            | Inr p \<Rightarrow> (Inl (Error (''API key not found for provider: '' @ p)), t))
         else
           (case formatMessagesForProvider (elements (lookup parsed ''messages''))
                   (lookup parsed ''provider'') of
              Inl e \<Rightarrow> (Inl e, t)
            | Inr formattedMessages \<Rightarrow>
                (case dispatch w (lookup parsed ''provider'') formattedMessages
                        (lookup parsed ''model'') apiKey
                        (if lookup parsed ''stream'' = JUndefined then JBool False
                         else lookup parsed ''stream'') of
                   (r, t') \<Rightarrow> (r, t @ t'))))"
  using assms isArray_truthy [OF assms(3)] by (simp add: try_block_def Let_def)

lemma resolve_unsupported:
  assumes "p \<noteq> ''openai''" "p \<noteq> ''claude''" "p \<noteq> ''mistral''"
  shows "resolveApiKey w (JStr p) u =
    (if truthy u then (Inr u, []) else (Inl (Error (''Unsupported provider: '' @ p)), []))"
  using assms by (simp add: resolveApiKey_def)

lemma dispatch_unsupported:
  assumes "p \<noteq> ''openai''" "p \<noteq> ''claude''" "p \<noteq> ''mistral''"
  shows "dispatch w (JStr p) fm m k s = (Inl (Error (''Unsupported provider: '' @ p)), [])"
  using assms by (simp add: dispatch_def)

lemma format_unsupported:
  assumes "p \<noteq> ''openai''" "p \<noteq> ''claude''" "p \<noteq> ''mistral''"
  shows "formatMessagesForProvider ms (JStr p) = Inr ms"
  using assms by (simp add: formatMessagesForProvider_def)

lemma secret_name_cases:
  "secret_name provider = Some name \<Longrightarrow>
     provider = JStr ''openai'' \<and> name = ''OPENAI_API_KEY'' \<or>
     provider = JStr ''claude'' \<and> name = ''ANTHROPIC_API_KEY'' \<or>
     provider = JStr ''mistral'' \<and> name = ''MISTRAL_API_KEY''"
  by (auto simp: secret_name_def split: if_splits)

lemma resolve_caller: "truthy u \<Longrightarrow> resolveApiKey w provider u = (Inr u, [])"
  by (simp add: resolveApiKey_def)

lemma resolve_env:
  "\<not> truthy u \<Longrightarrow> secret_name provider = Some name \<Longrightarrow>
   resolveApiKey w provider u = (Inr (env_value w name), [EnvGet name])"
  by (auto simp: resolveApiKey_def dest!: secret_name_cases)

lemma resolve_no_fetch: "resolveApiKey w provider u = (r, t) \<Longrightarrow> filter is_fetch t = []"
  by (auto simp: resolveApiKey_def split: if_splits sum.splits)

lemma dispatch_trace:
  assumes "dispatch w provider fm model apiKey stream = (r, t)" and "Fetch q \<in> set t"
  shows "t = [Fetch q] \<and> secret_name provider \<noteq> None \<and>
           r = and_then (fetch w q) (after_fetch w
                 (if provider = JStr ''openai'' then ''OpenAI API error: ''
                  else if provider = JStr ''claude'' then ''Claude API error: ''
                  else ''Mistral API error: '')
                 (if provider = JStr ''claude'' then content_result else choices_result)) \<and>
           rq_method q = ''POST'' \<and>
           rq_body q = JObj ([(''model'', model)]
              @ (if provider = JStr ''claude'' then [(''max_tokens'', JNum 4000)] else [])
              @ [(''messages'', JArr fm), (''stream'', stream)]) \<and>
           carries_credential w provider apiKey q"
  using assms
  by (auto simp: dispatch_def callOpenAI_def callClaude_def callMistral_def Let_def
      openai_request_def claude_request_def mistral_request_def carries_credential_def
      secret_name_def
      split: if_splits sum.splits)

lemma dispatch_fetches:
  assumes "secret_name provider = Some name" and "to_string w apiKey = Inr key"
  shows "\<exists>r q. dispatch w provider fm model apiKey stream = (r, [Fetch q])"
  using secret_name_cases [OF assms(1)] assms(2)
  by (auto simp: dispatch_def callOpenAI_def callClaude_def callMistral_def Let_def)

lemma format_supported:
  assumes "secret_name provider = Some name" and "\<forall>m\<in>set ms. \<not> nullish m"
  shows "\<exists>fm. formatMessagesForProvider ms provider = Inr fm"
  using secret_name_cases [OF assms(1)] format_claude [OF assms(2)] format_same [OF assms(2)]
  by auto

lemma handler_trace: "req_method req \<noteq> ''OPTIONS'' \<Longrightarrow> snd (handler w req) = snd (try_block w req)"
  by (simp add: handler_def split: prod.splits sum.splits)

lemma handler_preflight_trace: "req_method req = ''OPTIONS'' \<Longrightarrow> snd (handler w req) = []"
  by (simp add: handler_def)

lemma valid_with_key:
  assumes "req_json req = Inr parsed" and "\<not> nullish parsed"
    and "isArray (lookup parsed ''messages'')" and "elements (lookup parsed ''messages'') \<noteq> []"
    and "\<forall>m\<in>set (elements (lookup parsed ''messages'')). \<not> nullish m"
    and "truthy (lookup parsed ''model'')"
    and "secret_name (lookup parsed ''provider'') = Some name"
    and "resolveApiKey w (lookup parsed ''provider'') (lookup parsed ''userApiKey'') = (Inr (JStr k), t)"
    and "k \<noteq> []"
  shows "\<exists>fm r q. formatMessagesForProvider (elements (lookup parsed ''messages'')) (lookup parsed ''provider'') = Inr fm \<and>
     try_block w req = (r, t @ [Fetch q]) \<and>
     r = and_then (fetch w q) (after_fetch w
                 (if lookup parsed ''provider'' = JStr ''openai'' then ''OpenAI API error: ''
                  else if lookup parsed ''provider'' = JStr ''claude'' then ''Claude API error: ''
                  else ''Mistral API error: '')
                 (if lookup parsed ''provider'' = JStr ''claude'' then content_result else choices_result)) \<and>
     rq_method q = ''POST'' \<and>
     rq_body q = JObj ([(''model'', lookup parsed ''model'')]
              @ (if lookup parsed ''provider'' = JStr ''claude'' then [(''max_tokens'', JNum 4000)] else [])
              @ [(''messages'', JArr fm),
                 (''stream'', if lookup parsed ''stream'' = JUndefined then JBool False
                           else lookup parsed ''stream'')]) \<and>
     carries_credential w (lookup parsed ''provider'') (JStr k) q"
proof -
  let ?stream = "if lookup parsed ''stream'' = JUndefined then JBool False else lookup parsed ''stream''"
  have tp: "truthy (lookup parsed ''provider'')"
    using secret_name_cases [OF assms(7)] by auto
  obtain fm where fm: "formatMessagesForProvider (elements (lookup parsed ''messages'')) (lookup parsed ''provider'') = Inr fm"
    using format_supported [OF assms(7,5)] by blast
  have ts: "to_string w (JStr k) = Inr k" by simp
  obtain r q where d: "dispatch w (lookup parsed ''provider'') fm (lookup parsed ''model'') (JStr k) ?stream = (r, [Fetch q])"
    using dispatch_fetches [OF assms(7) ts] by blast
  have "Fetch q \<in> set [Fetch q]" by simp
  note rest = dispatch_trace [OF d this]
  have "try_block w req = (r, t @ [Fetch q])"
    unfolding try_block_valid [OF assms(1,2,3,4,6) tp] assms(8) using assms(9) fm d
    by simp
  with fm rest show ?thesis by blast
qed


lemma try_block_fetch:
  assumes "Fetch q \<in> set (snd (try_block w req))"
  shows "\<exists>parsed fm apiKey t r.
     req_json req = Inr parsed \<and>
     resolveApiKey w (lookup parsed ''provider'') (lookup parsed ''userApiKey'') = (Inr apiKey, t) \<and>
     formatMessagesForProvider (elements (lookup parsed ''messages'')) (lookup parsed ''provider'') = Inr fm \<and>
     dispatch w (lookup parsed ''provider'') fm (lookup parsed ''model'') apiKey
        (if lookup parsed ''stream'' = JUndefined then JBool False else lookup parsed ''stream'')
       = (r, [Fetch q]) \<and>
     try_block w req = (r, t @ [Fetch q])"
proof -
  from assms obtain parsed where p: "req_json req = Inr parsed" "\<not> nullish parsed"
    by (auto simp: try_block_def split: sum.splits if_splits)
  let ?stream = "if lookup parsed ''stream'' = JUndefined then JBool False else lookup parsed ''stream''"
  from assms p have v: "isArray (lookup parsed ''messages'')" "elements (lookup parsed ''messages'') \<noteq> []"
     "truthy (lookup parsed ''model'')" "truthy (lookup parsed ''provider'')"
    by (auto simp: try_block_def Let_def split: if_splits)
  obtain kr t where res: "resolveApiKey w (lookup parsed ''provider'') (lookup parsed ''userApiKey'') = (kr, t)"
    by (cases "resolveApiKey w (lookup parsed ''provider'') (lookup parsed ''userApiKey'')")
  have nf: "Fetch q \<notin> set t"
    using resolve_no_fetch [OF res] by (auto simp: filter_empty_conv)
  note tb = try_block_valid [OF p v, of w, unfolded res, simplified]
  from assms nf obtain apiKey where k: "kr = Inr apiKey" "truthy apiKey"
    unfolding tb by (cases kr) (auto split: sum.splits if_splits)
  from assms nf k obtain fm where fm: "formatMessagesForProvider (elements (lookup parsed ''messages'')) (lookup parsed ''provider'') = Inr fm"
    unfolding tb by (auto split: sum.splits if_splits)
  obtain r t' where d: "dispatch w (lookup parsed ''provider'') fm (lookup parsed ''model'') apiKey ?stream = (r, t')"
    by (cases "dispatch w (lookup parsed ''provider'') fm (lookup parsed ''model'') apiKey ?stream")
  have tbe: "try_block w req = (r, t @ t')"
    unfolding tb using k fm d by simp
  with assms nf have "Fetch q \<in> set t'" by simp
  from dispatch_trace [OF d this] have "t' = [Fetch q]" by simp
  with p res k fm d tbe show ?thesis by blast
qed


lemma choices_result_example:
  "choices_result (JObj [(''choices'', JArr [JObj [(''message'', JObj [(''content'', JStr c)])]]),
                         (''usage'', u), (''model'', m)])
   = Inr (JObj [(''content'', JStr c), (''usage'', u), (''model'', m)])"
  by (simp add: choices_result_def opt_prop_def or_else_def get_prop_def)

lemma content_result_example:
  "content_result (JObj [(''content'', JArr [JObj [(''text'', JStr c)]]),
                         (''usage'', u), (''model'', m)])
   = Inr (JObj [(''content'', JStr c), (''usage'', u), (''model'', m)])"
  by (simp add: content_result_def opt_prop_def or_else_def get_prop_def)


text \<open>The definitions of the model, for evaluating it on a concrete input.\<close>

lemmas eval_defs = handler_def try_block_def Let_def
  resolveApiKey_def formatMessagesForProvider_def dispatch_def
  callOpenAI_def callClaude_def callMistral_def openai_request_def claude_request_def
  mistral_request_def get_prop_def opt_prop_def or_else_def after_fetch_def response_ok_def
  choices_result_def content_result_def upstream_error_text_def env_value_def
  errorResponse_def successResponse_def req_provider_def

subsection \<open>The message transformer\<close>

text \<open>
  C1, as the code has it. For the claude provider the transformer keeps every message in
  its place in the list and keeps its content; it renames the role \<^verbatim>\<open>user\<close> to
  \<^verbatim>\<open>human\<close> and gives every other role, \<^verbatim>\<open>assistant\<close> and \<^verbatim>\<open>system\<close> among them,
  the role \<^verbatim>\<open>assistant\<close>. Nothing is hoisted out of the list.
\<close>

theorem claude_role_mapping:
  assumes "\<forall>m\<in>set messages. \<not> nullish m"
  shows "\<exists>out. formatMessagesForProvider messages (JStr ''claude'') = Inr out \<and>
           length out = length messages \<and>
           (\<forall>i<length messages.
              out ! i = JObj [(''role'', if lookup (messages ! i) ''role'' = JStr ''user''
                                         then JStr ''human'' else JStr ''assistant''),
                              (''content'', lookup (messages ! i) ''content'')])"
  using format_claude [OF assms] by simp

theorem claude_role_mapping_witness:
  "formatMessagesForProvider
     [chat_message ''user'' ''hello'', chat_message ''assistant'' ''hi'',
      chat_message ''system'' ''be brief''] (JStr ''claude'') =
   Inr [chat_message ''human'' ''hello'', chat_message ''assistant'' ''hi'',
        chat_message ''assistant'' ''be brief'']"
proof -
  let ?ms = "[chat_message ''user'' ''hello'', chat_message ''assistant'' ''hi'',
              chat_message ''system'' ''be brief'']"
  have h: "\<forall>m\<in>set ?ms. \<not> nullish m" by (simp add: chat_message_def)
  from claude_role_mapping [OF h] obtain out where
    o: "formatMessagesForProvider ?ms (JStr ''claude'') = Inr out"
    and l: "length out = length ?ms"
    and e: "\<forall>i<length ?ms.
              out ! i = JObj [(''role'', if lookup (?ms ! i) ''role'' = JStr ''user''
                                         then JStr ''human'' else JStr ''assistant''),
                              (''content'', lookup (?ms ! i) ''content'')]"
    by blast
  from e have "out ! 0 = chat_message ''human'' ''hello''"
    and "out ! 1 = chat_message ''assistant'' ''hi''"
    and "out ! 2 = chat_message ''assistant'' ''be brief''"
    by (simp_all add: chat_message_def)
  with l have "out = [chat_message ''human'' ''hello'', chat_message ''assistant'' ''hi'',
                      chat_message ''assistant'' ''be brief'']"
    by (auto simp: list_eq_iff_nth_eq nth_Cons' less_Suc_eq numeral_3_eq_3 numeral_2_eq_2)
  with o show ?thesis by simp
qed

text \<open>
  C1, as it is written, fails on a \<^verbatim>\<open>system\<close> message: the claim lets its role through,
  the code sends it as \<^verbatim>\<open>assistant\<close>.
\<close>

theorem claude_system_role_counterexample:
  "formatMessagesForProvider [chat_message ''system'' ''be brief''] (JStr ''claude'')
     = Inr [chat_message ''assistant'' ''be brief''] \<and>
   formatMessagesForProvider [chat_message ''system'' ''be brief''] (JStr ''claude'')
     \<noteq> Inr (map (\<lambda>msg. JObj [(''role'', documented_claude_role (lookup msg ''role'')),
                               (''content'', lookup msg ''content'')])
              [chat_message ''system'' ''be brief''])"
  by (simp add: formatMessagesForProvider_def chat_message_def documented_claude_role_def
      get_prop_def)

text \<open>
  C3, as the code has it. Transforming and then reversing the renaming gives back the
  roles of every message for openai and mistral, and for claude when every role is
  \<^verbatim>\<open>user\<close> or \<^verbatim>\<open>assistant\<close>.
\<close>

theorem round_trip_user_assistant:
  assumes "provider = JStr ''openai'' \<or> provider = JStr ''claude'' \<or> provider = JStr ''mistral''"
    and "\<forall>m\<in>set messages. \<not> nullish m"
    and "provider = JStr ''claude'' \<longrightarrow>
           (\<forall>m\<in>set messages. lookup m ''role'' = JStr ''user''
                               \<or> lookup m ''role'' = JStr ''assistant'')"
  shows "round_trip_roles provider messages = Some (roles messages)"
proof (cases "provider = JStr ''claude''")
  case True
  with assms(3) have r: "\<forall>m\<in>set messages. lookup m ''role'' = JStr ''user''
                                           \<or> lookup m ''role'' = JStr ''assistant''"
    by simp
  show ?thesis
    unfolding round_trip_roles_def True format_claude [OF assms(2)]
    using r by (auto simp: roles_def reverse_role_renaming_def)
next
  case False
  with assms(1) obtain p where p: "provider = JStr p" "p = ''openai'' \<or> p = ''mistral''"
    by auto
  show ?thesis
    unfolding round_trip_roles_def p(1) format_same [OF assms(2) p(2)]
    using p(2) by (auto simp: roles_def reverse_role_renaming_def)
qed

theorem round_trip_user_assistant_witness:
  "round_trip_roles (JStr ''claude'')
     [chat_message ''user'' ''hello'', chat_message ''assistant'' ''hi'']
     = Some [JStr ''user'', JStr ''assistant''] \<and>
   round_trip_roles (JStr ''openai'')
     [chat_message ''system'' ''be brief'', chat_message ''user'' ''hello'']
     = Some [JStr ''system'', JStr ''user'']"
  using round_trip_user_assistant [of "JStr ''claude''"
          "[chat_message ''user'' ''hello'', chat_message ''assistant'' ''hi'']"]
    round_trip_user_assistant [of "JStr ''openai''"
          "[chat_message ''system'' ''be brief'', chat_message ''user'' ''hello'']"]
  by (simp add: chat_message_def roles_def)

text \<open>
  C3, as it is written, fails for claude on a \<^verbatim>\<open>system\<close> message: the round trip ends
  on \<^verbatim>\<open>assistant\<close>.
\<close>

theorem round_trip_counterexample:
  "round_trip_roles (JStr ''claude'') [chat_message ''system'' ''be brief'']
     = Some [JStr ''assistant''] \<and>
   round_trip_roles (JStr ''claude'') [chat_message ''system'' ''be brief'']
     \<noteq> Some (roles [chat_message ''system'' ''be brief''])"
  by (simp add: round_trip_roles_def formatMessagesForProvider_def chat_message_def roles_def
      reverse_role_renaming_def get_prop_def)

subsection \<open>Validation\<close>

text \<open>
  C5. Whatever the provider, a request whose \<^verbatim>\<open>messages\<close> is missing (or otherwise
  falsy), not an array, or an empty array is answered with the error
  \<^verbatim>\<open>Messages array is required\<close>, and a request with messages but no model or no
  provider with \<^verbatim>\<open>Model and provider are required\<close>; in both cases the handler has
  read no environment variable and called \<^verbatim>\<open>fetch\<close> not once.
\<close>

theorem invalid_request_rejected:
  assumes "req_method req \<noteq> ''OPTIONS''" and "req_json req = Inr parsed" and "\<not> nullish parsed"
  shows "(\<not> truthy (lookup parsed ''messages'') \<or> \<not> isArray (lookup parsed ''messages'')
            \<or> elements (lookup parsed ''messages'') = []
          \<longrightarrow> handler w req = (errorResponse w req (Error ''Messages array is required''), []))
       \<and> (isArray (lookup parsed ''messages'') \<and> elements (lookup parsed ''messages'') \<noteq> []
            \<and> (\<not> truthy (lookup parsed ''model'') \<or> \<not> truthy (lookup parsed ''provider''))
          \<longrightarrow> handler w req = (errorResponse w req (Error ''Model and provider are required''), []))"
proof (intro conjI impI)
  assume "\<not> truthy (lookup parsed ''messages'') \<or> \<not> isArray (lookup parsed ''messages'')
            \<or> elements (lookup parsed ''messages'') = []"
  from try_block_messages [OF assms(2,3) this]
  show "handler w req = (errorResponse w req (Error ''Messages array is required''), [])"
    using handler_catch [OF assms(1)] by simp
next
  assume "isArray (lookup parsed ''messages'') \<and> elements (lookup parsed ''messages'') \<noteq> []
            \<and> (\<not> truthy (lookup parsed ''model'') \<or> \<not> truthy (lookup parsed ''provider''))"
  then have "try_block w req = (Inl (Error ''Model and provider are required''), [])"
    using try_block_model_provider [OF assms(2,3)] by blast
  then show "handler w req = (errorResponse w req (Error ''Model and provider are required''), [])"
    using handler_catch [OF assms(1)] by simp
qed

theorem invalid_request_rejected_witness:
  "handler (test_world Map.empty (Inl (Error ''offline'')))
     (post (JObj [(''messages'', JArr []), (''model'', JStr ''gpt-4''), (''provider'', JStr ''openai'')]))
   = (errorResponse (test_world Map.empty (Inl (Error ''offline'')))
        (post (JObj [(''messages'', JArr []), (''model'', JStr ''gpt-4''), (''provider'', JStr ''openai'')]))
        (Error ''Messages array is required''), []) \<and>
   handler (test_world Map.empty (Inl (Error ''offline'')))
     (post (JObj [(''messages'', JArr [chat_message ''user'' ''hello'']), (''provider'', JStr ''claude'')]))
   = (errorResponse (test_world Map.empty (Inl (Error ''offline'')))
        (post (JObj [(''messages'', JArr [chat_message ''user'' ''hello'']), (''provider'', JStr ''claude'')]))
        (Error ''Model and provider are required''), [])"
  using
    invalid_request_rejected [of
      "post (JObj [(''messages'', JArr []), (''model'', JStr ''gpt-4''), (''provider'', JStr ''openai'')])"
      "JObj [(''messages'', JArr []), (''model'', JStr ''gpt-4''), (''provider'', JStr ''openai'')]"
      "test_world Map.empty (Inl (Error ''offline''))"]
    invalid_request_rejected [of
      "post (JObj [(''messages'', JArr [chat_message ''user'' ''hello'']), (''provider'', JStr ''claude'')])"
      "JObj [(''messages'', JArr [chat_message ''user'' ''hello'']), (''provider'', JStr ''claude'')]"
      "test_world Map.empty (Inl (Error ''offline''))"]
  by (simp add: post_def)

text \<open>
  C6. A request that is valid but for its provider, which is a name other than
  \<^verbatim>\<open>openai\<close>, \<^verbatim>\<open>claude\<close> and \<^verbatim>\<open>mistral\<close>, is answered with the error
  \<^verbatim>\<open>Unsupported provider: <name>\<close>, whether or not the caller sent a key; the handler
  has read no environment variable and has not called \<^verbatim>\<open>fetch\<close>.
\<close>

theorem unsupported_provider_rejected:
  assumes "req_method req \<noteq> ''OPTIONS''" and "req_json req = Inr parsed" and "\<not> nullish parsed"
    and "isArray (lookup parsed ''messages'')" and "elements (lookup parsed ''messages'') \<noteq> []"
    and "truthy (lookup parsed ''model'')"
    and "lookup parsed ''provider'' = JStr p" and "p \<noteq> []"
    and "p \<noteq> ''openai''" and "p \<noteq> ''claude''" and "p \<noteq> ''mistral''"
  shows "handler w req = (errorResponse w req (Error (''Unsupported provider: '' @ p)), [])"
proof -
  have tp: "truthy (lookup parsed ''provider'')" using assms(7,8) by simp
  have "try_block w req = (Inl (Error (''Unsupported provider: '' @ p)), [])"
    unfolding try_block_valid [OF assms(2,3,4,5,6) tp] assms(7)
      resolve_unsupported [OF assms(9,10,11)] format_unsupported [OF assms(9,10,11)]
      dispatch_unsupported [OF assms(9,10,11)]
    by simp
  then show ?thesis
    using handler_catch [OF assms(1)] by simp
qed

theorem unsupported_provider_rejected_witness:
  "handler (test_world (\<lambda>name. Some ''secret'') (Inl (Error ''offline'')))
      (post (hello_body ''cohere'' JUndefined))
   = (errorResponse (test_world (\<lambda>name. Some ''secret'') (Inl (Error ''offline'')))
        (post (hello_body ''cohere'' JUndefined)) (Error ''Unsupported provider: cohere''), []) \<and>
   handler (test_world (\<lambda>name. Some ''secret'') (Inl (Error ''offline'')))
      (post (hello_body ''cohere'' (JStr ''sk-caller'')))
   = (errorResponse (test_world (\<lambda>name. Some ''secret'') (Inl (Error ''offline'')))
        (post (hello_body ''cohere'' (JStr ''sk-caller''))) (Error ''Unsupported provider: cohere''), [])"
  using
    unsupported_provider_rejected [of "post (hello_body ''cohere'' JUndefined)"
      "hello_body ''cohere'' JUndefined" "''cohere''"
      "test_world (\<lambda>name. Some ''secret'') (Inl (Error ''offline''))"]
    unsupported_provider_rejected [of "post (hello_body ''cohere'' (JStr ''sk-caller''))"
      "hello_body ''cohere'' (JStr ''sk-caller'')" "''cohere''"
      "test_world (\<lambda>name. Some ''secret'') (Inl (Error ''offline''))"]
  by (simp add: post_def hello_body_def)

subsection \<open>The error envelope\<close>

text \<open>
  C10. Whatever was thrown, be it one of the code's own errors, an error of the upstream
  call or a TypeError of the runtime, the response of the handler has status 500 and the
  body \<^verbatim>\<open>{error: {code, message, provider}}\<close> in which the code is
  \<^verbatim>\<open>CHAT_COMPLETION_FAILED\<close> and only the message comes from the error.
\<close>

theorem error_code_is_constant:
  assumes "req_method req \<noteq> ''OPTIONS''" and "try_block w req = (Inl e, t)"
  shows "handler w req =
    (\<lparr>rs_status = 500,
      rs_headers = corsHeaders @ [(''Content-Type'', ''application/json'')],
      rs_body = Some (JObj [(''error'',
        JObj [(''code'', JStr ''CHAT_COMPLETION_FAILED''),
              (''message'', JStr (message_of w e)),
              (''provider'', JStr ''unknown'')])])\<rparr>, t)"
  using handler_catch [OF assms]
  by (simp add: errorResponse_def req_provider_def or_else_def)

theorem error_code_is_constant_witness:
  "handler (test_world env_openai_only offline) (post (hello_body ''openai'' (JStr ''sk-caller'')))
   = (\<lparr>rs_status = 500,
       rs_headers = corsHeaders @ [(''Content-Type'', ''application/json'')],
       rs_body = Some (JObj [(''error'',
         JObj [(''code'', JStr ''CHAT_COMPLETION_FAILED''),
               (''message'', JStr ''offline''),
               (''provider'', JStr ''unknown'')])])\<rparr>,
      [Fetch (openai_request [chat_message ''user'' ''hello''] (JStr ''some-model'') ''sk-caller''
                (JBool False))]) \<and>
   handler (test_world env_openai_only offline) (post JNull)
   = (\<lparr>rs_status = 500,
       rs_headers = corsHeaders @ [(''Content-Type'', ''application/json'')],
       rs_body = Some (JObj [(''error'',
         JObj [(''code'', JStr ''CHAT_COMPLETION_FAILED''),
               (''message'', JStr ''TypeError''),
               (''provider'', JStr ''unknown'')])])\<rparr>, [])"
proof -
  let ?w = "test_world env_openai_only offline"
  have m: "req_method (post b) \<noteq> ''OPTIONS''" for b by (simp add: post_def)
  have 1: "try_block ?w (post (hello_body ''openai'' (JStr ''sk-caller'')))
     = (Inl (Error ''offline''),
        [Fetch (openai_request [chat_message ''user'' ''hello''] (JStr ''some-model'') ''sk-caller''
                (JBool False))])"
    by (simp add: eval_defs post_def hello_body_def chat_message_def test_world_def env_openai_only_def offline_def answer_def)
  have 2: "try_block ?w (post JNull) = (Inl (DestructureOfNullish JNull), [])"
    by (simp add: eval_defs post_def hello_body_def chat_message_def test_world_def env_openai_only_def offline_def answer_def)
  show ?thesis
    using error_code_is_constant [OF m 1] error_code_is_constant [OF m 2]
    by (simp add: test_world_def)
qed

text \<open>
  C4, at a failing input. The upstream answers a request for openai with status 401 and
  \<^verbatim>\<open>{"error": {"message": "invalid key"}}\<close>. The response has status 500 and the
  envelope \<^verbatim>\<open>{error: {code, message, provider}}\<close>, but its provider field is
  \<^verbatim>\<open>unknown\<close>, not the \<^verbatim>\<open>openai\<close> the request names: the handler reads
  \<^verbatim>\<open>req.provider\<close>, a property the request object does not have.
\<close>

theorem envelope_provider_is_unknown:
  "fst (handler (test_world env_openai_only (answer 401
              (JObj [(''error'', JObj [(''message'', JStr ''invalid key'')])])))
           (post (hello_body ''openai'' (JStr ''sk-caller''))))
   = \<lparr>rs_status = 500,
       rs_headers = corsHeaders @ [(''Content-Type'', ''application/json'')],
       rs_body = Some (JObj [(''error'',
         JObj [(''code'', JStr ''CHAT_COMPLETION_FAILED''),
               (''message'', JStr ''OpenAI API error: invalid key''),
               (''provider'', JStr ''unknown'')])])\<rparr>"
  by (simp add: eval_defs post_def hello_body_def chat_message_def test_world_def env_openai_only_def offline_def answer_def)

subsection \<open>Credentials\<close>

text \<open>
  C7. For a valid request to one of the three providers: a key of the caller is sent to
  the upstream and the environment is not read; without one, the secret of the provider
  is read from the environment and sent; and when that is absent or empty, the request is
  answered with the error \<^verbatim>\<open>API key not found for provider: <name>\<close> and
  \<^verbatim>\<open>fetch\<close> is not called.
\<close>

theorem credential_resolution:
  assumes "req_method req \<noteq> ''OPTIONS''" and "req_json req = Inr parsed" and "\<not> nullish parsed"
    and "isArray (lookup parsed ''messages'')" and "elements (lookup parsed ''messages'') \<noteq> []"
    and "\<forall>m\<in>set (elements (lookup parsed ''messages'')). \<not> nullish m"
    and "truthy (lookup parsed ''model'')"
    and "lookup parsed ''provider'' = JStr p" and "secret_name (JStr p) = Some name"
  shows "(\<forall>k. lookup parsed ''userApiKey'' = JStr k \<and> k \<noteq> [] \<longrightarrow>
            (\<exists>q. snd (handler w req) = [Fetch q] \<and> carries_credential w (JStr p) (JStr k) q))
       \<and> (\<forall>k. \<not> truthy (lookup parsed ''userApiKey'') \<and> env_get w name = Some k \<and> k \<noteq> [] \<longrightarrow>
            (\<exists>q. snd (handler w req) = [EnvGet name, Fetch q]
                  \<and> carries_credential w (JStr p) (JStr k) q))
       \<and> (\<not> truthy (lookup parsed ''userApiKey'')
            \<and> (env_get w name = None \<or> env_get w name = Some []) \<longrightarrow>
            handler w req =
              (errorResponse w req (Error (''API key not found for provider: '' @ p)), [EnvGet name]))"
proof (intro conjI allI impI)
  note sn = assms(9) [folded assms(8)]
  fix k assume a: "lookup parsed ''userApiKey'' = JStr k \<and> k \<noteq> []"
  then have "resolveApiKey w (lookup parsed ''provider'') (lookup parsed ''userApiKey'') = (Inr (JStr k), [])"
    using resolve_caller [of "JStr k"] by simp
  from valid_with_key [OF assms(2,3,4,5,6,7) sn this] a
  show "\<exists>q. snd (handler w req) = [Fetch q] \<and> carries_credential w (JStr p) (JStr k) q"
    using handler_trace [OF assms(1), of w] assms(8) by auto
next
  note sn = assms(9) [folded assms(8)]
  fix k assume a: "\<not> truthy (lookup parsed ''userApiKey'') \<and> env_get w name = Some k \<and> k \<noteq> []"
  then have "resolveApiKey w (lookup parsed ''provider'') (lookup parsed ''userApiKey'')
               = (Inr (JStr k), [EnvGet name])"
    using resolve_env [OF _ sn, of "lookup parsed ''userApiKey''" w] by (simp add: env_value_def)
  from valid_with_key [OF assms(2,3,4,5,6,7) sn this] a
  show "\<exists>q. snd (handler w req) = [EnvGet name, Fetch q] \<and> carries_credential w (JStr p) (JStr k) q"
    using handler_trace [OF assms(1), of w] assms(8) by auto
next
  note sn = assms(9) [folded assms(8)]
  assume a: "\<not> truthy (lookup parsed ''userApiKey'')
            \<and> (env_get w name = None \<or> env_get w name = Some [])"
  have tp: "truthy (lookup parsed ''provider'')"
    using secret_name_cases [OF sn] by auto
  from a have r: "resolveApiKey w (lookup parsed ''provider'') (lookup parsed ''userApiKey'')
               = (Inr (env_value w name), [EnvGet name])" and f: "\<not> truthy (env_value w name)"
    using resolve_env [OF _ sn, of "lookup parsed ''userApiKey''" w] by (auto simp: env_value_def)
  have "try_block w req = (Inl (Error (''API key not found for provider: '' @ p)), [EnvGet name])"
    unfolding try_block_valid [OF assms(2,3,4,5,7) tp] r using f assms(8) by simp
  then show "handler w req =
              (errorResponse w req (Error (''API key not found for provider: '' @ p)), [EnvGet name])"
    using handler_catch [OF assms(1)] by simp
qed

theorem credential_resolution_witness:
  "(\<exists>q. snd (handler (test_world env_openai_only offline) (post (hello_body ''openai'' (JStr ''sk-caller''))))
          = [Fetch q]
        \<and> carries_credential (test_world env_openai_only offline) (JStr ''openai'') (JStr ''sk-caller'') q) \<and>
   (\<exists>q. snd (handler (test_world env_openai_only offline) (post (hello_body ''openai'' JUndefined)))
          = [EnvGet ''OPENAI_API_KEY'', Fetch q]
        \<and> carries_credential (test_world env_openai_only offline) (JStr ''openai'') (JStr ''sk-env'') q) \<and>
   handler (test_world env_openai_only offline) (post (hello_body ''claude'' JUndefined))
     = (errorResponse (test_world env_openai_only offline) (post (hello_body ''claude'' JUndefined))
          (Error ''API key not found for provider: claude''), [EnvGet ''ANTHROPIC_API_KEY''])"
  using
    credential_resolution [of "post (hello_body ''openai'' (JStr ''sk-caller''))"
      "hello_body ''openai'' (JStr ''sk-caller'')" "''openai''" "''OPENAI_API_KEY''"
      "test_world env_openai_only offline"]
    credential_resolution [of "post (hello_body ''openai'' JUndefined)"
      "hello_body ''openai'' JUndefined" "''openai''" "''OPENAI_API_KEY''"
      "test_world env_openai_only offline"]
    credential_resolution [of "post (hello_body ''claude'' JUndefined)"
      "hello_body ''claude'' JUndefined" "''claude''" "''ANTHROPIC_API_KEY''"
      "test_world env_openai_only offline"]
  by (simp add: post_def hello_body_def chat_message_def test_world_def secret_name_def
      env_openai_only_def)

subsection \<open>The upstream call and its result\<close>

text \<open>
  C9. Whenever the handler calls \<^verbatim>\<open>fetch\<close>, it calls it once, for one of the three
  providers, with the method POST, with the resolved key in the header of the provider
  (\<^verbatim>\<open>Authorization: Bearer\<close> for openai and mistral, \<^verbatim>\<open>x-api-key\<close> beside
  \<^verbatim>\<open>anthropic-version\<close> for claude), and with a body that holds the requested model,
  the transformed messages and the stream flag, and for claude also
  \<^verbatim>\<open>max_tokens\<close> with the value 4000.
\<close>

theorem upstream_dispatch_shape:
  assumes "Fetch q \<in> set (snd (handler w req))"
  shows "\<exists>parsed fm apiKey.
     req_json req = Inr parsed \<and>
     secret_name (lookup parsed ''provider'') \<noteq> None \<and>
     fst (resolveApiKey w (lookup parsed ''provider'') (lookup parsed ''userApiKey'')) = Inr apiKey \<and>
     formatMessagesForProvider (elements (lookup parsed ''messages'')) (lookup parsed ''provider'') = Inr fm \<and>
     filter is_fetch (snd (handler w req)) = [Fetch q] \<and>
     rq_method q = ''POST'' \<and>
     rq_body q = JObj ([(''model'', lookup parsed ''model'')]
              @ (if lookup parsed ''provider'' = JStr ''claude'' then [(''max_tokens'', JNum 4000)] else [])
              @ [(''messages'', JArr fm),
                 (''stream'', if lookup parsed ''stream'' = JUndefined then JBool False
                           else lookup parsed ''stream'')]) \<and>
     carries_credential w (lookup parsed ''provider'') apiKey q"
proof -
  from assms have m: "req_method req \<noteq> ''OPTIONS''"
    using handler_preflight_trace [of req w] by auto
  with assms have "Fetch q \<in> set (snd (try_block w req))"
    by (simp add: handler_trace)
  from try_block_fetch [OF this] obtain parsed fm apiKey t r where
    x: "req_json req = Inr parsed"
     "resolveApiKey w (lookup parsed ''provider'') (lookup parsed ''userApiKey'') = (Inr apiKey, t)"
     "formatMessagesForProvider (elements (lookup parsed ''messages'')) (lookup parsed ''provider'') = Inr fm"
     "dispatch w (lookup parsed ''provider'') fm (lookup parsed ''model'') apiKey
        (if lookup parsed ''stream'' = JUndefined then JBool False else lookup parsed ''stream'')
       = (r, [Fetch q])"
     "try_block w req = (r, t @ [Fetch q])"
    by blast
  have "Fetch q \<in> set [Fetch q]" by simp
  note d = dispatch_trace [OF x(4) this]
  have "filter is_fetch (snd (handler w req)) = [Fetch q]"
    using handler_trace [OF m, of w] x(5) resolve_no_fetch [OF x(2)] by simp
  with x d show ?thesis by auto
qed

theorem upstream_dispatch_shape_witness:
  "Fetch (claude_request [chat_message ''human'' ''hello''] (JStr ''some-model'') (JStr ''sk-caller'')
            (JBool False))
     \<in> set (snd (handler (test_world env_openai_only offline)
                    (post (hello_body ''claude'' (JStr ''sk-caller''))))) \<and>
   filter is_fetch (snd (handler (test_world env_openai_only offline)
                    (post (hello_body ''claude'' (JStr ''sk-caller'')))))
     = [Fetch (claude_request [chat_message ''human'' ''hello''] (JStr ''some-model'')
                 (JStr ''sk-caller'') (JBool False))]"
proof -
  let ?q = "claude_request [chat_message ''human'' ''hello''] (JStr ''some-model'') (JStr ''sk-caller'')
            (JBool False)"
  let ?t = "snd (handler (test_world env_openai_only offline)
                    (post (hello_body ''claude'' (JStr ''sk-caller''))))"
  have h: "Fetch ?q \<in> set ?t"
    by (simp add: eval_defs post_def hello_body_def chat_message_def test_world_def env_openai_only_def offline_def answer_def)
  from upstream_dispatch_shape [OF h] have "filter is_fetch ?t = [Fetch ?q]"
    by blast
  with h show ?thesis by simp
qed

text \<open>
  C8. When the upstream answers a valid request inside 200 to 299 with the body
  \<^verbatim>\<open>{"choices": [{"message": {"content": c}}], "usage": u, "model": m}\<close> for openai
  or mistral, or \<^verbatim>\<open>{"content": [{"text": c}], "usage": u, "model": m}\<close> for claude,
  the response of the handler has status 200 and the body
  \<^verbatim>\<open>{content: c, usage: u, model: m}\<close>.
\<close>

theorem canonical_result:
  assumes "req_method req \<noteq> ''OPTIONS''" and "req_json req = Inr parsed" and "\<not> nullish parsed"
    and "isArray (lookup parsed ''messages'')" and "elements (lookup parsed ''messages'') \<noteq> []"
    and "\<forall>m\<in>set (elements (lookup parsed ''messages'')). \<not> nullish m"
    and "truthy (lookup parsed ''model'')"
    and "secret_name (lookup parsed ''provider'') = Some name"
    and "resolveApiKey w (lookup parsed ''provider'') (lookup parsed ''userApiKey'') = (Inr (JStr k), t)"
    and "k \<noteq> []"
    and "\<forall>q. fetch w q = Inr r" and "response_ok r" and "up_json r = Inr data"
  shows "(lookup parsed ''provider'' \<noteq> JStr ''claude'' \<and>
          data = JObj [(''choices'', JArr [JObj [(''message'', JObj [(''content'', JStr c)])]]),
                       (''usage'', u), (''model'', m)]
          \<longrightarrow> fst (handler w req)
                = \<lparr>rs_status = 200,
                   rs_headers = corsHeaders @ [(''Content-Type'', ''application/json'')],
                   rs_body = Some (JObj [(''content'', JStr c), (''usage'', u), (''model'', m)])\<rparr>)
       \<and> (lookup parsed ''provider'' = JStr ''claude'' \<and>
          data = JObj [(''content'', JArr [JObj [(''text'', JStr c)]]),
                       (''usage'', u), (''model'', m)]
          \<longrightarrow> fst (handler w req)
                = \<lparr>rs_status = 200,
                   rs_headers = corsHeaders @ [(''Content-Type'', ''application/json'')],
                   rs_body = Some (JObj [(''content'', JStr c), (''usage'', u), (''model'', m)])\<rparr>)"
proof -
  from valid_with_key [OF assms(2,3,4,5,6,7,8,9,10)] obtain ex q where
    tb: "try_block w req = (and_then (fetch w q) (after_fetch w ex
           (if lookup parsed ''provider'' = JStr ''claude'' then content_result else choices_result)),
         t @ [Fetch q])"
    by blast
  have af: "and_then (fetch w q) (after_fetch w ex f) = f data" for f
    using assms(11,12,13) by (simp add: after_fetch_def)
  show ?thesis
  proof (intro conjI impI)
    assume a: "lookup parsed ''provider'' \<noteq> JStr ''claude'' \<and>
          data = JObj [(''choices'', JArr [JObj [(''message'', JObj [(''content'', JStr c)])]]),
                       (''usage'', u), (''model'', m)]"
    then have "try_block w req
        = (Inr (JObj [(''content'', JStr c), (''usage'', u), (''model'', m)]), t @ [Fetch q])"
      unfolding tb af using choices_result_example [of c u m] by simp
    from handler_return [OF assms(1) this]
    show "fst (handler w req)
                = \<lparr>rs_status = 200,
                   rs_headers = corsHeaders @ [(''Content-Type'', ''application/json'')],
                   rs_body = Some (JObj [(''content'', JStr c), (''usage'', u), (''model'', m)])\<rparr>"
      by (simp add: successResponse_def)
  next
    assume a: "lookup parsed ''provider'' = JStr ''claude'' \<and>
          data = JObj [(''content'', JArr [JObj [(''text'', JStr c)]]),
                       (''usage'', u), (''model'', m)]"
    then have "try_block w req
        = (Inr (JObj [(''content'', JStr c), (''usage'', u), (''model'', m)]), t @ [Fetch q])"
      unfolding tb af using content_result_example [of c u m] by simp
    from handler_return [OF assms(1) this]
    show "fst (handler w req)
                = \<lparr>rs_status = 200,
                   rs_headers = corsHeaders @ [(''Content-Type'', ''application/json'')],
                   rs_body = Some (JObj [(''content'', JStr c), (''usage'', u), (''model'', m)])\<rparr>"
      by (simp add: successResponse_def)
  qed
qed

theorem canonical_result_witness:
  "fst (handler
         (test_world Map.empty (answer 200
            (JObj [(''choices'', JArr [JObj [(''message'', JObj [(''content'', JStr ''hi'')])]]),
                   (''usage'', JObj [(''total_tokens'', JNum 3)]), (''model'', JStr ''gpt-4'')])))
         (post (hello_body ''openai'' (JStr ''sk-caller''))))
   = \<lparr>rs_status = 200,
      rs_headers = corsHeaders @ [(''Content-Type'', ''application/json'')],
      rs_body = Some (JObj [(''content'', JStr ''hi''),
                            (''usage'', JObj [(''total_tokens'', JNum 3)]),
                            (''model'', JStr ''gpt-4'')])\<rparr> \<and>
   fst (handler
         (test_world env_openai_only (answer 200
            (JObj [(''content'', JArr [JObj [(''text'', JStr ''hi'')]]),
                   (''usage'', JObj [(''total_tokens'', JNum 3)]), (''model'', JStr ''claude-3-opus'')])))
         (post (hello_body ''claude'' (JStr ''sk-caller''))))
   = \<lparr>rs_status = 200,
      rs_headers = corsHeaders @ [(''Content-Type'', ''application/json'')],
      rs_body = Some (JObj [(''content'', JStr ''hi''),
                            (''usage'', JObj [(''total_tokens'', JNum 3)]),
                            (''model'', JStr ''claude-3-opus'')])\<rparr>"
  using
    canonical_result [of "post (hello_body ''openai'' (JStr ''sk-caller''))"
      "hello_body ''openai'' (JStr ''sk-caller'')" "''OPENAI_API_KEY''"
      "test_world Map.empty (answer 200
            (JObj [(''choices'', JArr [JObj [(''message'', JObj [(''content'', JStr ''hi'')])]]),
                   (''usage'', JObj [(''total_tokens'', JNum 3)]), (''model'', JStr ''gpt-4'')]))"
      "''sk-caller''" "[]"
      "\<lparr>up_status = 200, up_json = Inr
            (JObj [(''choices'', JArr [JObj [(''message'', JObj [(''content'', JStr ''hi'')])]]),
                   (''usage'', JObj [(''total_tokens'', JNum 3)]), (''model'', JStr ''gpt-4'')])\<rparr>"
      "JObj [(''choices'', JArr [JObj [(''message'', JObj [(''content'', JStr ''hi'')])]]),
                   (''usage'', JObj [(''total_tokens'', JNum 3)]), (''model'', JStr ''gpt-4'')]"
      "''hi''" "JObj [(''total_tokens'', JNum 3)]" "JStr ''gpt-4''"]
    canonical_result [of "post (hello_body ''claude'' (JStr ''sk-caller''))"
      "hello_body ''claude'' (JStr ''sk-caller'')" "''ANTHROPIC_API_KEY''"
      "test_world env_openai_only (answer 200
            (JObj [(''content'', JArr [JObj [(''text'', JStr ''hi'')]]),
                   (''usage'', JObj [(''total_tokens'', JNum 3)]), (''model'', JStr ''claude-3-opus'')]))"
      "''sk-caller''" "[]"
      "\<lparr>up_status = 200, up_json = Inr
            (JObj [(''content'', JArr [JObj [(''text'', JStr ''hi'')]]),
                   (''usage'', JObj [(''total_tokens'', JNum 3)]), (''model'', JStr ''claude-3-opus'')])\<rparr>"
      "JObj [(''content'', JArr [JObj [(''text'', JStr ''hi'')]]),
                   (''usage'', JObj [(''total_tokens'', JNum 3)]), (''model'', JStr ''claude-3-opus'')]"
      "''hi''" "JObj [(''total_tokens'', JNum 3)]" "JStr ''claude-3-opus''"]
  by (simp add: post_def hello_body_def chat_message_def test_world_def answer_def
      secret_name_def resolveApiKey_def response_ok_def)

text \<open>
  C2, at a failing input. A body that parses but has no \<^verbatim>\<open>choices\<close> (no
  \<^verbatim>\<open>content\<close> for claude) makes the call throw a TypeError, since only the steps
  after \<^verbatim>\<open>[0]\<close> are optional, and the handler answers with status 500 instead of an
  empty content.
\<close>

theorem missing_choices_throws:
  "choices_result (JObj [(''usage'', JObj [(''total_tokens'', JNum 3)]), (''model'', JStr ''gpt-4'')])
     = Inl (ReadOfNullish JUndefined ''0'') \<and>
   content_result (JObj [(''usage'', JObj [(''total_tokens'', JNum 3)]), (''model'', JStr ''claude-3-opus'')])
     = Inl (ReadOfNullish JUndefined ''0'') \<and>
   handler (test_world env_openai_only (answer 200
              (JObj [(''usage'', JObj [(''total_tokens'', JNum 3)]), (''model'', JStr ''gpt-4'')])))
           (post (hello_body ''openai'' (JStr ''sk-caller'')))
   = (errorResponse (test_world env_openai_only (answer 200
              (JObj [(''usage'', JObj [(''total_tokens'', JNum 3)]), (''model'', JStr ''gpt-4'')])))
           (post (hello_body ''openai'' (JStr ''sk-caller'')))
           (ReadOfNullish JUndefined ''0''),
      [Fetch (openai_request [chat_message ''user'' ''hello''] (JStr ''some-model'') ''sk-caller''
                (JBool False))])"
  by (simp add: handler_def try_block_def Let_def post_def hello_body_def chat_message_def
  test_world_def resolveApiKey_def formatMessagesForProvider_def dispatch_def
  callOpenAI_def get_prop_def opt_prop_def or_else_def after_fetch_def response_ok_def
  choices_result_def content_result_def answer_def)

text \<open>Where the array is there, what is missing below it does give the empty string.\<close>

lemma empty_choices_default:
  "choices_result (JObj [(''choices'', JArr []), (''model'', JStr ''gpt-4'')])
     = Inr (JObj [(''content'', JStr ''''), (''usage'', JUndefined), (''model'', JStr ''gpt-4'')])"
  by (simp add: choices_result_def opt_prop_def or_else_def get_prop_def)

end
